theory Spec2Isabelle
  imports Main "HOL-Library.AList"
begin

section \<open>JSONDatabase: a dictionary mirrored to a JSON file\<close>

text \<open>
  The Python class \<^verbatim>\<open>JSONDatabase\<close> keeps a reference to a document (\<^verbatim>\<open>self.store\<close>),
  a file path (\<^verbatim>\<open>self.location\<close>) and a \<^verbatim>\<open>threading.Lock\<close> (\<^verbatim>\<open>self.lock\<close>).
  The embedding below has three layers:
  \<^item> the values a document is made of, and what \<^verbatim>\<open>json.dump\<close> and \<^verbatim>\<open>json.load\<close> do
    with them (the standard library, modelled for the values of the JSON grammar);
  \<^item> the world the class runs in: a heap of document objects, because
    \<^verbatim>\<open>self.store = default\<close> and \<^verbatim>\<open>self.store = store\<close> copy references and
    \<^verbatim>\<open>self.store[key] = value\<close> mutates the referenced object, and a file system;
  \<^item> the methods of the class, one definition per method, each one returning what the
    call does (returns, raises, or waits on the lock for ever) together with the
    instance and the world it leaves behind.
\<close>

subsection \<open>Documents\<close>

text \<open>
  A document is a value of the JSON grammar. Objects are association lists in insertion
  order, as a Python \<^verbatim>\<open>dict\<close> is; their keys are strings. Numbers are the integers:
  floating-point numbers are left out of the model.
\<close>

datatype json =
    JNull
  | JBool bool
  | JNum int
  | JStr string
  | JArr "json list"
  | JObj "(string \<times> json) list"


subsection \<open>\<^verbatim>\<open>json.dumps\<close> with its default arguments\<close>

text \<open>
  \<^verbatim>\<open>ensure_ascii=True\<close>: inside a string literal the quote and the backslash are
  escaped, the five control characters with a short form use it, every other character
  outside \<^verbatim>\<open>' '..'~'\<close> is written \<^verbatim>\<open>\u00xx\<close> with lower-case digits. The item separator
  is \<^verbatim>\<open>', '\<close> and the key separator \<^verbatim>\<open>': '\<close>.
\<close>

definition hexdigit :: "nat \<Rightarrow> char" where
  "hexdigit n = ''0123456789abcdef'' ! n"

definition escape_char :: "char \<Rightarrow> string" where
  "escape_char c =
     (if c = CHR 0x22 then [CHR 0x5C, CHR 0x22]
      else if c = CHR 0x5C then [CHR 0x5C, CHR 0x5C]
      else if c = CHR 0x08 then [CHR 0x5C, CHR ''b'']
      else if c = CHR 0x0C then [CHR 0x5C, CHR ''f'']
      else if c = CHR 0x0A then [CHR 0x5C, CHR ''n'']
      else if c = CHR 0x0D then [CHR 0x5C, CHR ''r'']
      else if c = CHR 0x09 then [CHR 0x5C, CHR ''t'']
      else if 0x20 \<le> (of_char c :: nat) \<and> (of_char c :: nat) \<le> 0x7E then [c]
      else [CHR 0x5C, CHR ''u'', CHR ''0'', CHR ''0'',
            hexdigit (of_char c div 16), hexdigit (of_char c mod 16)])"

definition encode_string :: "string \<Rightarrow> string" where
  "encode_string s = CHR 0x22 # concat (map escape_char s) @ [CHR 0x22]"

fun digits :: "nat \<Rightarrow> string" where
  "digits n = (if n < 10 then [hexdigit n] else digits (n div 10) @ [hexdigit (n mod 10)])"

declare digits.simps [simp del]

definition encode_int :: "int \<Rightarrow> string" where
  "encode_int i = (if i < 0 then CHR ''-'' # digits (nat (- i)) else digits (nat i))"

fun join :: "'a list \<Rightarrow> 'a list list \<Rightarrow> 'a list" where
  "join sep [] = []"
| "join sep [x] = x"
| "join sep (x # y # ys) = x @ sep @ join sep (y # ys)"

fun dumps :: "json \<Rightarrow> string" where
  "dumps JNull = ''null''"
| "dumps (JBool b) = (if b then ''true'' else ''false'')"
| "dumps (JNum i) = encode_int i"
| "dumps (JStr s) = encode_string s"
| "dumps (JArr xs) = ''['' @ join '', '' (map dumps xs) @ '']''"
| "dumps (JObj kvs) =
     ''{'' @ join '', '' (map (\<lambda>(k, v). encode_string k @ '': '' @ dumps v) kvs) @ ''}''"

subsection \<open>\<^verbatim>\<open>json.loads\<close>\<close>

text \<open>
  The decoder is a scanner for the tokens of the grammar followed by a recursive-descent
  parser. A \<^verbatim>\<open>\uXXXX\<close> escape above code point 255 and a number with a fraction or an
  exponent denote values outside \<^typ>\<open>json\<close>; the decoder gives \<open>None\<close> for them, as it
  does for a text that is not JSON.
\<close>

datatype token =
    LBrace | RBrace | LBrack | RBrack | Comma | Colon
  | TNull | TTrue | TFalse | TNum int | TStr string

definition is_digit :: "char \<Rightarrow> bool" where
  "is_digit c \<longleftrightarrow> 0x30 \<le> (of_char c :: nat) \<and> (of_char c :: nat) \<le> 0x39"

definition whitespace :: "char \<Rightarrow> bool" where
  "whitespace c \<longleftrightarrow> c = CHR '' '' \<or> c = CHR 0x09 \<or> c = CHR 0x0A \<or> c = CHR 0x0D"

definition hexval :: "char \<Rightarrow> nat option" where
  "hexval c =
     (let n = (of_char c :: nat) in
      if 0x30 \<le> n \<and> n \<le> 0x39 then Some (n - 0x30)
      else if 0x61 \<le> n \<and> n \<le> 0x66 then Some (n - 0x61 + 10)
      else if 0x41 \<le> n \<and> n \<le> 0x46 then Some (n - 0x41 + 10)
      else None)"

definition unescape :: "char \<Rightarrow> char option" where
  "unescape e =
     (if e = CHR 0x22 then Some (CHR 0x22)
      else if e = CHR 0x5C then Some (CHR 0x5C)
      else if e = CHR ''/'' then Some (CHR ''/'')
      else if e = CHR ''b'' then Some (CHR 0x08)
      else if e = CHR ''f'' then Some (CHR 0x0C)
      else if e = CHR ''n'' then Some (CHR 0x0A)
      else if e = CHR ''r'' then Some (CHR 0x0D)
      else if e = CHR ''t'' then Some (CHR 0x09)
      else None)"

definition decode_u :: "char \<Rightarrow> char \<Rightarrow> char \<Rightarrow> char \<Rightarrow> char option" where
  "decode_u a b c d =
     (case (hexval a, hexval b, hexval c, hexval d) of
        (Some x3, Some x2, Some x1, Some x0) \<Rightarrow>
          (let n = ((x3 * 16 + x2) * 16 + x1) * 16 + x0
           in if n < 256 then Some (char_of n) else None)
      | _ \<Rightarrow> None)"

text \<open>What follows a backslash: the character it stands for and the rest of the text.\<close>

definition scan_escape :: "string \<Rightarrow> (char \<times> string) option" where
  "scan_escape cs =
     (case cs of
        [] \<Rightarrow> None
      | e # cs1 \<Rightarrow>
          if e = CHR ''u'' then
            (case cs1 of
               a # b # c # d # cs2 \<Rightarrow>
                 (case decode_u a b c d of
                    Some ch \<Rightarrow> Some (ch, cs2)
                  | None \<Rightarrow> None)
             | _ \<Rightarrow> None)
          else
            (case unescape e of
               Some ch \<Rightarrow> Some (ch, cs1)
             | None \<Rightarrow> None))"

text \<open>
  The body of a string literal, after its opening quote, up to the closing quote; a raw
  control character ends the scan with an error (\<^verbatim>\<open>strict=True\<close>).
\<close>

function scanstring :: "string \<Rightarrow> string \<Rightarrow> (string \<times> string) option" where
  "scanstring acc [] = None"
| "scanstring acc (c # cs) =
     (if c = CHR 0x22 then Some (rev acc, cs)
      else if c = CHR 0x5C then
        (case scan_escape cs of
           None \<Rightarrow> None
         | Some (ch, rest) \<Rightarrow> scanstring (ch # acc) rest)
      else if (of_char c :: nat) < 0x20 then None
      else scanstring (c # acc) cs)"
  by pat_completeness auto
termination
proof -
  have esc: "length rest < length cs" if "scan_escape cs = Some (ch, rest)" for cs ch rest
    using that by (auto simp: scan_escape_def split: list.splits if_splits option.splits)
  show ?thesis
    by (relation "measure (\<lambda>(acc, cs). length cs)") (auto dest: esc)
qed

definition digits_value :: "string \<Rightarrow> nat" where
  "digits_value ds = foldl (\<lambda>n c. 10 * n + (of_char c - 0x30)) 0 ds"

text \<open>
  After the integer part of a number: a fraction \<^verbatim>\<open>\.\d+\<close> or an exponent
  \<^verbatim>\<open>[eE][-+]?\d+\<close> makes the number a float.
\<close>

definition float_follows :: "string \<Rightarrow> bool" where
  "float_follows rest =
     (case rest of
        c # d # more \<Rightarrow>
          (c = CHR ''.'' \<and> is_digit d)
          \<or> ((c = CHR ''e'' \<or> c = CHR ''E'')
              \<and> (is_digit d
                  \<or> ((d = CHR ''+'' \<or> d = CHR ''-'')
                      \<and> (case more of x # _ \<Rightarrow> is_digit x | [] \<Rightarrow> False))))
      | _ \<Rightarrow> False)"

text \<open>The integer part is \<^verbatim>\<open>-?(0|[1-9]\d*)\<close>: after a leading zero the number is over.\<close>

definition scan_number :: "string \<Rightarrow> (int \<times> string) option" where
  "scan_number s =
     (let neg = (case s of c # _ \<Rightarrow> c = CHR ''-'' | [] \<Rightarrow> False);
          s1 = (if neg then tl s else s);
          ds = takeWhile is_digit s1;
          ip = (case ds of [] \<Rightarrow> [] | d # _ \<Rightarrow> if d = CHR ''0'' then [d] else ds);
          rest = drop (length ip) s1
      in if ip = [] then None
         else if float_follows rest then None
         else Some (if neg then - int (digits_value ip) else int (digits_value ip), rest))"

text \<open>The token at the front of a text that does not start with white space.\<close>

definition next_token :: "string \<Rightarrow> (token \<times> string) option" where
  "next_token s =
     (case s of
        [] \<Rightarrow> None
      | c # cs \<Rightarrow>
          if c = CHR ''{'' then Some (LBrace, cs)
          else if c = CHR ''}'' then Some (RBrace, cs)
          else if c = CHR ''['' then Some (LBrack, cs)
          else if c = CHR '']'' then Some (RBrack, cs)
          else if c = CHR '','' then Some (Comma, cs)
          else if c = CHR '':'' then Some (Colon, cs)
          else if c = CHR 0x22 then
            (case scanstring [] cs of
               None \<Rightarrow> None
             | Some (str, rest) \<Rightarrow> Some (TStr str, rest))
          else if c = CHR ''-'' \<or> is_digit c then
            (case scan_number s of
               None \<Rightarrow> None
             | Some (i, rest) \<Rightarrow> Some (TNum i, rest))
          else if take 4 s = ''null'' then Some (TNull, drop 4 s)
          else if take 4 s = ''true'' then Some (TTrue, drop 4 s)
          else if take 5 s = ''false'' then Some (TFalse, drop 5 s)
          else None)"

text \<open>
  The tokens of a text. A token always uses at least one character; the test on the
  lengths records it for the termination proof.
\<close>

function lex :: "string \<Rightarrow> token list option" where
  "lex [] = Some []"
| "lex (c # cs) =
     (if whitespace c then lex cs
      else
        (case next_token (c # cs) of
           None \<Rightarrow> None
         | Some (t, rest) \<Rightarrow>
             if length rest < length (c # cs) then map_option ((#) t) (lex rest) else None))"
  by pat_completeness auto
termination
  by (relation "measure length") auto

text \<open>
  The pairs of an object literal become a \<^verbatim>\<open>dict\<close>: a key that comes again keeps its
  place and takes the later value.
\<close>

definition make_dict :: "(string \<times> json) list \<Rightarrow> (string \<times> json) list" where
  "make_dict pairs = foldl (\<lambda>d (k, v). AList.update k v d) [] pairs"

text \<open>
  \<open>parse_value\<close> reads one value from the front of the tokens; \<open>parse_elems\<close> the items
  of a non-empty array up to its bracket, \<open>parse_members\<close> the pairs of a non-empty
  object up to its brace. Each returns the tokens it has not used (always fewer than
  it was given, which the test on the lengths records for the termination proof).
\<close>

function parse_value :: "token list \<Rightarrow> (json \<times> token list) option"
  and parse_elems :: "token list \<Rightarrow> (json list \<times> token list) option"
  and parse_members :: "token list \<Rightarrow> ((string \<times> json) list \<times> token list) option"
where
  "parse_value [] = None"
| "parse_value (TNull # ts) = Some (JNull, ts)"
| "parse_value (TTrue # ts) = Some (JBool True, ts)"
| "parse_value (TFalse # ts) = Some (JBool False, ts)"
| "parse_value (TNum i # ts) = Some (JNum i, ts)"
| "parse_value (TStr s # ts) = Some (JStr s, ts)"
| "parse_value (LBrack # ts) =
     (case ts of
        RBrack # ts' \<Rightarrow> Some (JArr [], ts')
      | _ \<Rightarrow> (case parse_elems ts of
                None \<Rightarrow> None
              | Some (xs, r) \<Rightarrow> Some (JArr xs, r)))"
| "parse_value (LBrace # ts) =
     (case ts of
        RBrace # ts' \<Rightarrow> Some (JObj [], ts')
      | _ \<Rightarrow> (case parse_members ts of
                None \<Rightarrow> None
              | Some (kvs, r) \<Rightarrow> Some (JObj (make_dict kvs), r)))"
| "parse_value (RBrace # ts) = None"
| "parse_value (RBrack # ts) = None"
| "parse_value (Comma # ts) = None"
| "parse_value (Colon # ts) = None"
| "parse_elems ts =
     (case parse_value ts of
        None \<Rightarrow> None
      | Some (x, r) \<Rightarrow>
          if length r < length ts then
            (case r of
               Comma # r' \<Rightarrow>
                 (case parse_elems r' of
                    None \<Rightarrow> None
                  | Some (xs, r'') \<Rightarrow> Some (x # xs, r''))
             | RBrack # r' \<Rightarrow> Some ([x], r')
             | _ \<Rightarrow> None)
          else None)"
| "parse_members ts =
     (case ts of
        TStr k # Colon # ts1 \<Rightarrow>
          (case parse_value ts1 of
             None \<Rightarrow> None
           | Some (v, r) \<Rightarrow>
               if length r < length ts then
                 (case r of
                    Comma # r' \<Rightarrow>
                      (case parse_members r' of
                         None \<Rightarrow> None
                       | Some (kvs, r'') \<Rightarrow> Some ((k, v) # kvs, r''))
                  | RBrace # r' \<Rightarrow> Some ([(k, v)], r')
                  | _ \<Rightarrow> None)
               else None)
      | _ \<Rightarrow> None)"
  by pat_completeness auto
termination
  by (relation "measure (\<lambda>x. case x of
          Inl ts \<Rightarrow> 2 * length ts
        | Inr (Inl ts) \<Rightarrow> 2 * length ts + 1
        | Inr (Inr ts) \<Rightarrow> 2 * length ts + 1)")
     auto

text \<open>The whole text is one value, with white space around it and nothing else.\<close>

definition loads :: "string \<Rightarrow> json option" where
  "loads s =
     (case lex s of
        None \<Rightarrow> None
      | Some ts \<Rightarrow>
          (case parse_value ts of
             Some (v, []) \<Rightarrow> Some v
           | _ \<Rightarrow> None))"



subsection \<open>The world: document objects and files\<close>

text \<open>
  An entry of the file system is absent (and can be created or not: a missing directory
  or a read-only directory forbids it), a regular file with its text and whether it may
  be read and written, or a directory.
\<close>

datatype node =
    Absent bool
  | Regular string bool bool
  | Directory

text \<open>\<^verbatim>\<open>os.path.exists\<close>\<close>

fun path_exists :: "node \<Rightarrow> bool" where
  "path_exists (Absent _) = False"
| "path_exists _ = True"

text \<open>\<^verbatim>\<open>open(p, 'r')\<close> followed by reading the whole file; \<open>None\<close> is \<^verbatim>\<open>OSError\<close>.\<close>

fun open_r :: "node \<Rightarrow> string option" where
  "open_r (Regular text readable _) = (if readable then Some text else None)"
| "open_r _ = None"

text \<open>
  \<^verbatim>\<open>open(p, 'w')\<close>, writing \<open>text\<close> and closing: the file is created or its content
  replaced; \<open>None\<close> is \<^verbatim>\<open>OSError\<close>, and the entry is then as it was.
\<close>

fun open_w :: "node \<Rightarrow> string \<Rightarrow> node option" where
  "open_w (Absent creatable) text = (if creatable then Some (Regular text True True) else None)"
| "open_w (Regular _ readable writable) text =
     (if writable then Some (Regular text readable writable) else None)"
| "open_w Directory text = None"

text \<open>What the entry holds, for whoever may look, and whether \<^verbatim>\<open>open(p, 'w')\<close> succeeds.\<close>

fun contents :: "node \<Rightarrow> string option" where
  "contents (Regular text _ _) = Some text"
| "contents _ = None"

fun can_write :: "node \<Rightarrow> bool" where
  "can_write (Absent creatable) = creatable"
| "can_write (Regular _ _ writable) = writable"
| "can_write Directory = False"

text \<open>
  The heap maps a reference to the document object it denotes; \<open>fresh\<close> is the next unused
  reference. Reference \<open>0\<close> is the dictionary that the \<^verbatim>\<open>def __init__(..., default: dict = {}, ...)\<close>
  statement builds once, when the class body runs, and that every call without a
  \<^verbatim>\<open>default\<close> argument receives.
\<close>

record world =
  objects :: "nat \<Rightarrow> json"
  fresh :: nat
  files :: "string \<Rightarrow> node"

definition default_object :: nat where
  "default_object = 0"

text \<open>A new object, as a dictionary display or \<^verbatim>\<open>json.load\<close> builds one.\<close>

definition new_object :: "json \<Rightarrow> world \<Rightarrow> nat \<times> world" where
  "new_object v w = (fresh w, w\<lparr>objects := (objects w)(fresh w := v), fresh := Suc (fresh w)\<rparr>)"

text \<open>
  The state of the process right after the class has been defined: the default dictionary
  is empty and there are no files.
\<close>

definition initial_world :: world where
  "initial_world = \<lparr>objects = (\<lambda>_. JObj []), fresh = 1, files = (\<lambda>_. Absent True)\<rparr>"

subsection \<open>The instance\<close>

text \<open>
  \<open>history\<close> is not a field of the class: it records, in order, what the instance did to
  its lock and to its backing file, so that statements about the order of these events
  can be made.
\<close>

datatype event = Acquire | Release | Write string

record JSONDatabase =
  location :: string
  store :: nat
  lock :: bool
  history :: "event list"

datatype error =
    KeyError string
  | TypeError
  | OSError
  | JSONDecodeError
  | RuntimeError
  | UserError string

text \<open>
  A call returns a value, raises, or never comes back: \<^verbatim>\<open>threading.Lock\<close> is not
  re-entrant, and \<^verbatim>\<open>acquire\<close> on a lock that is held waits until some other thread
  releases it.
\<close>

datatype 'a outcome = Returns 'a | Raises error | Blocks

type_synonym 'a result = "'a outcome \<times> JSONDatabase \<times> world"

definition document :: "JSONDatabase \<Rightarrow> world \<Rightarrow> json" where
  "document self w = objects w (store self)"

text \<open>\<^verbatim>\<open>self.lock.acquire()\<close> on a free lock, and \<^verbatim>\<open>self.lock.release()\<close> on a held one.\<close>

definition acquire :: "JSONDatabase \<Rightarrow> JSONDatabase" where
  "acquire self = self\<lparr>lock := True, history := history self @ [Acquire]\<rparr>"

definition release :: "JSONDatabase \<Rightarrow> JSONDatabase" where
  "release self = self\<lparr>lock := False, history := history self @ [Release]\<rparr>"

text \<open>
  Reading a stretch of history from its start: is the backing file written before the
  lock is next released?
\<close>

fun write_before_release :: "event list \<Rightarrow> bool" where
  "write_before_release [] = False"
| "write_before_release (Write _ # es) = True"
| "write_before_release (Release # es) = False"
| "write_before_release (Acquire # es) = write_before_release es"

subsection \<open>The methods\<close>

text \<open>
  \<^verbatim>\<open>
  def dump(self):
      with self.lock, open(self.location, 'w') as f:
          json.dump(self.store, f)
  \<close>
  The lock is taken first; when \<^verbatim>\<open>open\<close> raises, the \<^verbatim>\<open>with\<close> statement releases the
  lock on the way out.
\<close>

definition dump :: "JSONDatabase \<Rightarrow> world \<Rightarrow> unit result" where
  "dump self w =
     (if lock self then (Blocks, self, w)
      else
        let self1 = acquire self;
            text = dumps (objects w (store self1))
        in case open_w (files w (location self1)) text of
             None \<Rightarrow> (Raises OSError, release self1, w)
           | Some n \<Rightarrow>
               (Returns (),
                release (self1\<lparr>history := history self1 @ [Write text]\<rparr>),
                w\<lparr>files := (files w)(location self1 := n)\<rparr>))"

text \<open>
  \<^verbatim>\<open>
  def load(self):
      with self.lock, open(self.location, 'r') as f:
          self.store = json.load(f)
  \<close>
  The assignment runs only when \<^verbatim>\<open>json.load\<close> has returned.
\<close>

definition load :: "JSONDatabase \<Rightarrow> world \<Rightarrow> unit result" where
  "load self w =
     (if lock self then (Blocks, self, w)
      else
        let self1 = acquire self
        in case open_r (files w (location self1)) of
             None \<Rightarrow> (Raises OSError, release self1, w)
           | Some text \<Rightarrow>
               (case loads text of
                  None \<Rightarrow> (Raises JSONDecodeError, release self1, w)
                | Some v \<Rightarrow>
                    let (a, w1) = new_object v w
                    in (Returns (), release (self1\<lparr>store := a\<rparr>), w1)))"

text \<open>
  \<^verbatim>\<open>
  def __init__(self, location: str, default: dict = {}, overwrite=False):
      self.location = location
      self.store = default
      self.lock = threading.Lock()
      if overwrite or not path.exists(location):
          self.dump()
      else:
          self.load()
  \<close>
  The argument \<open>dflt\<close> is the reference passed for \<^verbatim>\<open>default\<close>; \<open>None\<close> stands for a call that leaves it out.
\<close>

definition init :: "string \<Rightarrow> nat option \<Rightarrow> bool \<Rightarrow> world \<Rightarrow> unit result" where
  "init loc dflt ovw w =
     (let self = \<lparr>location = loc,
                  store = (case dflt of None \<Rightarrow> default_object | Some a \<Rightarrow> a),
                  lock = False,
                  history = []\<rparr>
      in if ovw \<or> \<not> path_exists (files w loc) then dump self w else load self w)"

text \<open>
  \<^verbatim>\<open>
  def overwrite(self, store):
      self.store = store
      self.dump()
  \<close>
\<close>

definition overwrite :: "JSONDatabase \<Rightarrow> nat \<Rightarrow> world \<Rightarrow> unit result" where
  "overwrite self new w = dump (self\<lparr>store := new\<rparr>) w"

text \<open>
  \<^verbatim>\<open>
  def __enter__(self):
      self.lock.acquire()
      return
  \<close>
\<close>

definition enter :: "JSONDatabase \<Rightarrow> world \<Rightarrow> unit result" where
  "enter self w = (if lock self then (Blocks, self, w) else (Returns (), acquire self, w))"

text \<open>
  \<^verbatim>\<open>
  def __exit__(self, type, value, traceback):
      self.lock.release()
      self.dump()
  \<close>
  The first argument is the exception that left the block, if any; the method does not
  look at it. Releasing a lock that is not held raises \<^verbatim>\<open>RuntimeError\<close>. The method
  returns \<^verbatim>\<open>None\<close>, so an exception that left the block is raised again after it.
\<close>

definition exit :: "error option \<Rightarrow> JSONDatabase \<Rightarrow> world \<Rightarrow> unit result" where
  "exit exc self w =
     (if \<not> lock self then (Raises RuntimeError, self, w)
      else dump (release self) w)"

text \<open>
  \<^verbatim>\<open>
  def __getitem__(self, key):
      return self.store[key]
  def __setitem__(self, key, value):
      self.store[key] = value
  def __delitem__(self, key):
      del self.store[key]
  def __len__(self):
      return len(self.store)
  \<close>
  Keys are strings. Only a \<^verbatim>\<open>dict\<close> can be subscripted with a string, so a document
  of any other kind (which \<^verbatim>\<open>json.load\<close> and \<^verbatim>\<open>overwrite\<close> can install) raises
  \<^verbatim>\<open>TypeError\<close>. Assigning to a key that is present keeps its place, a new key goes to the
  end.
\<close>

definition getitem :: "JSONDatabase \<Rightarrow> string \<Rightarrow> world \<Rightarrow> json result" where
  "getitem self key w =
     (case objects w (store self) of
        JObj d \<Rightarrow>
          (case map_of d key of
             None \<Rightarrow> (Raises (KeyError key), self, w)
           | Some v \<Rightarrow> (Returns v, self, w))
      | _ \<Rightarrow> (Raises TypeError, self, w))"

definition setitem :: "JSONDatabase \<Rightarrow> string \<Rightarrow> json \<Rightarrow> world \<Rightarrow> unit result" where
  "setitem self key v w =
     (case objects w (store self) of
        JObj d \<Rightarrow>
          (Returns (), self,
           w\<lparr>objects := (objects w)(store self := JObj (AList.update key v d))\<rparr>)
      | _ \<Rightarrow> (Raises TypeError, self, w))"

definition delitem :: "JSONDatabase \<Rightarrow> string \<Rightarrow> world \<Rightarrow> unit result" where
  "delitem self key w =
     (case objects w (store self) of
        JObj d \<Rightarrow>
          (case map_of d key of
             None \<Rightarrow> (Raises (KeyError key), self, w)
           | Some _ \<Rightarrow>
               (Returns (), self,
                w\<lparr>objects := (objects w)(store self := JObj (AList.delete key d))\<rparr>))
      | _ \<Rightarrow> (Raises TypeError, self, w))"

definition len :: "JSONDatabase \<Rightarrow> world \<Rightarrow> nat result" where
  "len self w =
     (case objects w (store self) of
        JObj d \<Rightarrow> (Returns (length d), self, w)
      | JArr xs \<Rightarrow> (Returns (length xs), self, w)
      | JStr s \<Rightarrow> (Returns (length s), self, w)
      | _ \<Rightarrow> (Raises TypeError, self, w))"

subsection \<open>The \<^verbatim>\<open>with\<close> statement on an instance\<close>

text \<open>
  The statements of a block: the three mapping operations and \<^verbatim>\<open>raise\<close>. A block stops
  at the first statement that raises.
\<close>

datatype stmt =
    Get string
  | Set string json
  | Del string
  | Throw error

fun exec_stmt :: "stmt \<Rightarrow> JSONDatabase \<Rightarrow> world \<Rightarrow> unit result" where
  "exec_stmt (Get k) self w =
     (case getitem self k w of
        (Returns _, self1, w1) \<Rightarrow> (Returns (), self1, w1)
      | (Raises e, self1, w1) \<Rightarrow> (Raises e, self1, w1)
      | (Blocks, self1, w1) \<Rightarrow> (Blocks, self1, w1))"
| "exec_stmt (Set k v) self w = setitem self k v w"
| "exec_stmt (Del k) self w = delitem self k w"
| "exec_stmt (Throw e) self w = (Raises e, self, w)"

fun exec_body :: "stmt list \<Rightarrow> JSONDatabase \<Rightarrow> world \<Rightarrow> unit result" where
  "exec_body [] self w = (Returns (), self, w)"
| "exec_body (s # ss) self w =
     (case exec_stmt s self w of
        (Returns _, self1, w1) \<Rightarrow> exec_body ss self1 w1
      | r \<Rightarrow> r)"

text \<open>
  \<^verbatim>\<open>with db: body\<close> calls \<^verbatim>\<open>__enter__\<close>, runs the block, and calls \<^verbatim>\<open>__exit__\<close> whether the
  block returned or raised. \<^verbatim>\<open>__exit__\<close> returns \<^verbatim>\<open>None\<close>, which does not suppress the
  exception of the block; an exception of \<^verbatim>\<open>__exit__\<close> itself replaces it.
\<close>

definition with_block :: "stmt list \<Rightarrow> JSONDatabase \<Rightarrow> world \<Rightarrow> unit result" where
  "with_block body self w =
     (case enter self w of
        (Returns _, self1, w1) \<Rightarrow>
          (case exec_body body self1 w1 of
             (Returns _, self2, w2) \<Rightarrow> exit None self2 w2
           | (Raises e, self2, w2) \<Rightarrow>
               (case exit (Some e) self2 w2 of
                  (Returns _, self3, w3) \<Rightarrow> (Raises e, self3, w3)
                | r \<Rightarrow> r)
           | (Blocks, self2, w2) \<Rightarrow> (Blocks, self2, w2))
      | r \<Rightarrow> r)"

section \<open>Properties\<close>

subsection \<open>Files and the lock\<close>

lemma open_w_can_write:
  "can_write n \<Longrightarrow> \<exists>m. open_w n text = Some m \<and> contents m = Some text \<and> can_write m"
  by (cases n) auto

lemma open_w_refused: "\<not> can_write n \<Longrightarrow> open_w n text = None"
  by (cases n) auto

lemma open_w_contents: "open_w n text = Some m \<Longrightarrow> contents m = Some text"
  by (cases n) (auto split: if_splits)


text \<open>What \<open>dump\<close> does when the lock is free, in one equation for each way out.\<close>

lemma dump_free:
  assumes "\<not> lock self"
    and "open_w (files w (location self)) (dumps (document self w)) = Some n"
  shows "dump self w =
           (Returns (),
            self\<lparr>history := history self @ [Acquire, Write (dumps (document self w)), Release]\<rparr>,
            w\<lparr>files := (files w)(location self := n)\<rparr>)"
  using assms by (simp add: dump_def acquire_def release_def document_def)

lemma dump_refused:
  assumes "\<not> lock self"
    and "open_w (files w (location self)) (dumps (document self w)) = None"
  shows "dump self w = (Raises OSError, self\<lparr>history := history self @ [Acquire, Release]\<rparr>, w)"
  using assms by (simp add: dump_def acquire_def release_def document_def)

lemma dump_held: "lock self \<Longrightarrow> dump self w = (Blocks, self, w)"
  by (simp add: dump_def)

text \<open>Whatever \<open>dump\<close> does, the documents and the reference of the instance stay.\<close>

lemma dump_frame:
  assumes "dump self w = (r, self', w')"
  shows "objects w' = objects w \<and> store self' = store self \<and> location self' = location self"
  using assms
  by (auto simp: dump_def acquire_def release_def Let_def split: if_splits option.splits)

subsection \<open>The mapping operations\<close>

lemma setitem_frame:
  assumes "setitem self k v w = (r, self', w')"
  shows "self' = self \<and> files w' = files w \<and> r \<noteq> Blocks"
  using assms by (cases "objects w (store self)") (auto simp: setitem_def)

lemma getitem_frame:
  assumes "getitem self k w = (r, self', w')"
  shows "self' = self \<and> w' = w \<and> r \<noteq> Blocks"
  using assms by (cases "objects w (store self)") (auto simp: getitem_def split: option.splits)

lemma delitem_frame:
  assumes "delitem self k w = (r, self', w')"
  shows "self' = self \<and> files w' = files w \<and> r \<noteq> Blocks"
  using assms by (cases "objects w (store self)") (auto simp: delitem_def split: option.splits)

lemma exec_stmt_frame:
  assumes "exec_stmt s self w = (r, self', w')"
  shows "self' = self \<and> files w' = files w \<and> r \<noteq> Blocks"
proof (cases s)
  case (Get k)
  obtain r1 s1 w1 where g: "getitem self k w = (r1, s1, w1)"
    by (cases "getitem self k w") auto
  from getitem_frame [OF g] g Get assms show ?thesis
    by (cases r1) auto
next
  case (Set k v)
  with assms setitem_frame show ?thesis by simp
next
  case (Del k)
  with assms delitem_frame show ?thesis by simp
next
  case (Throw e)
  with assms show ?thesis by auto
qed

lemma exec_body_frame:
  "exec_body ss self w = (r, self', w') \<Longrightarrow> self' = self \<and> files w' = files w \<and> r \<noteq> Blocks"
proof (induction ss arbitrary: self w)
  case Nil
  then show ?case by auto
next
  case (Cons s ss)
  obtain r1 self1 w1 where step: "exec_stmt s self w = (r1, self1, w1)"
    by (cases "exec_stmt s self w") auto
  from exec_stmt_frame [OF step] have same: "self1 = self" "files w1 = files w" "r1 \<noteq> Blocks"
    by simp_all
  show ?case
  proof (cases r1)
    case (Returns u)
    with step Cons.prems have "exec_body ss self1 w1 = (r, self', w')" by simp
    from Cons.IH [OF this] same show ?thesis by simp
  next
    case (Raises e)
    with step Cons.prems same show ?thesis by auto
  next
    case Blocks
    with same show ?thesis by simp
  qed
qed

subsection \<open>The claims\<close>

text \<open>
  C7. For every key \<open>k\<close> and value \<open>v\<close>: when \<open>Set(k, v)\<close> has been performed, \<open>Get(k)\<close> on
  the same instance, with nothing in between, returns \<open>v\<close>; and \<open>Set\<close> is performed
  (it returns) on every document that is a dictionary.
\<close>

theorem set_then_get:
  "(setitem self k v w = (Returns (), self', w') \<longrightarrow> getitem self' k w' = (Returns v, self', w'))
   \<and> (document self w = JObj d \<longrightarrow> (\<exists>w'. setitem self k v w = (Returns (), self, w')))"
  by (auto simp: setitem_def getitem_def document_def AList.update_conv' split: json.splits)

theorem set_then_get_witness:
  "setitem \<lparr>location = ''db.json'', store = 0, lock = False, history = []\<rparr>
     ''dict'' (JObj [(''answer'', JNum 42)]) initial_world
   = (Returns (), \<lparr>location = ''db.json'', store = 0, lock = False, history = []\<rparr>,
      initial_world\<lparr>objects := (objects initial_world)(0 := JObj [(''dict'', JObj [(''answer'', JNum 42)])])\<rparr>)
   \<and> getitem \<lparr>location = ''db.json'', store = 0, lock = False, history = []\<rparr> ''dict''
       (initial_world\<lparr>objects := (objects initial_world)(0 := JObj [(''dict'', JObj [(''answer'', JNum 42)])])\<rparr>)
     = (Returns (JObj [(''answer'', JNum 42)]),
        \<lparr>location = ''db.json'', store = 0, lock = False, history = []\<rparr>,
        initial_world\<lparr>objects := (objects initial_world)(0 := JObj [(''dict'', JObj [(''answer'', JNum 42)])])\<rparr>)"
proof -
  let ?db = "\<lparr>location = ''db.json'', store = 0, lock = False, history = []\<rparr>"
  let ?v = "JObj [(''answer'', JNum 42)]"
  let ?w' = "initial_world\<lparr>objects := (objects initial_world)(0 := JObj [(''dict'', ?v)])\<rparr>"
  have s: "setitem ?db ''dict'' ?v initial_world = (Returns (), ?db, ?w')"
    by (simp add: setitem_def initial_world_def)
  from set_then_get [of ?db "''dict''" ?v initial_world ?db ?w' "[]"] s
  show ?thesis by simp
qed

text \<open>
  C8. For every key \<open>k\<close> that is not present in the in-memory document (a dictionary):
  \<open>Get(k)\<close> raises \<^verbatim>\<open>KeyError\<close> and \<open>Delete(k)\<close> raises \<^verbatim>\<open>KeyError\<close>, and both leave
  the instance and the world, hence the document, as they were.
\<close>

theorem absent_key_raises:
  assumes "document self w = JObj d" and "k \<notin> fst ` set d"
  shows "getitem self k w = (Raises (KeyError k), self, w)
         \<and> delitem self k w = (Raises (KeyError k), self, w)"
proof -
  from assms(2) have "map_of d k = None"
    by (simp add: map_of_eq_None_iff)
  with assms(1) show ?thesis
    by (simp add: getitem_def delitem_def document_def)
qed

theorem absent_key_raises_witness:
  "document \<lparr>location = ''db.json'', store = 0, lock = False, history = []\<rparr>
     (initial_world\<lparr>objects := (\<lambda>_. JObj [(''list'', JArr [])])\<rparr>) = JObj [(''list'', JArr [])]
   \<and> ''dict'' \<notin> fst ` set [(''list'', JArr [])]
   \<and> getitem \<lparr>location = ''db.json'', store = 0, lock = False, history = []\<rparr> ''dict''
        (initial_world\<lparr>objects := (\<lambda>_. JObj [(''list'', JArr [])])\<rparr>)
      = (Raises (KeyError ''dict''),
         \<lparr>location = ''db.json'', store = 0, lock = False, history = []\<rparr>,
         initial_world\<lparr>objects := (\<lambda>_. JObj [(''list'', JArr [])])\<rparr>)
   \<and> delitem \<lparr>location = ''db.json'', store = 0, lock = False, history = []\<rparr> ''dict''
        (initial_world\<lparr>objects := (\<lambda>_. JObj [(''list'', JArr [])])\<rparr>)
      = (Raises (KeyError ''dict''),
         \<lparr>location = ''db.json'', store = 0, lock = False, history = []\<rparr>,
         initial_world\<lparr>objects := (\<lambda>_. JObj [(''list'', JArr [])])\<rparr>)"
proof -
  let ?db = "\<lparr>location = ''db.json'', store = 0, lock = False, history = []\<rparr>"
  let ?w = "initial_world\<lparr>objects := (\<lambda>_. JObj [(''list'', JArr [])])\<rparr>"
  have d: "document ?db ?w = JObj [(''list'', JArr [])]"
    by (simp add: document_def)
  have k: "''dict'' \<notin> fst ` set [(''list'', JArr [])]"
    by simp
  from absent_key_raises [OF d k] d k show ?thesis by simp
qed

text \<open>
  C9. \<open>Set(k, v)\<close> and \<open>Delete(k)\<close>, whatever they do, leave every file as it was, and
  the instance with it: its path, and its history, to which no write is added.
\<close>

theorem set_delete_do_not_persist:
  "(setitem self k v w = (r, self', w') \<longrightarrow> files w' = files w \<and> self' = self)
   \<and> (delitem self k w = (r, self', w') \<longrightarrow> files w' = files w \<and> self' = self)"
  by (auto simp: setitem_def delitem_def split: json.splits option.splits)

theorem set_delete_do_not_persist_witness:
  "setitem \<lparr>location = ''db.json'', store = 0, lock = False, history = []\<rparr> ''a'' (JNum 1)
     initial_world
   = (Returns (), \<lparr>location = ''db.json'', store = 0, lock = False, history = []\<rparr>,
      initial_world\<lparr>objects := (objects initial_world)(0 := JObj [(''a'', JNum 1)])\<rparr>)
   \<and> files (initial_world\<lparr>objects := (objects initial_world)(0 := JObj [(''a'', JNum 1)])\<rparr>)
     = files initial_world
   \<and> delitem \<lparr>location = ''db.json'', store = 0, lock = False, history = []\<rparr> ''a''
       (initial_world\<lparr>objects := (objects initial_world)(0 := JObj [(''a'', JNum 1)])\<rparr>)
     = (Returns (), \<lparr>location = ''db.json'', store = 0, lock = False, history = []\<rparr>,
        initial_world\<lparr>objects := (objects initial_world)(0 := JObj [])\<rparr>)
   \<and> files (initial_world\<lparr>objects := (objects initial_world)(0 := JObj [])\<rparr>)
     = files initial_world"
proof -
  let ?db = "\<lparr>location = ''db.json'', store = 0, lock = False, history = []\<rparr>"
  let ?w1 = "initial_world\<lparr>objects := (objects initial_world)(0 := JObj [(''a'', JNum 1)])\<rparr>"
  let ?w2 = "initial_world\<lparr>objects := (objects initial_world)(0 := JObj [])\<rparr>"
  have s: "setitem ?db ''a'' (JNum 1) initial_world = (Returns (), ?db, ?w1)"
    by (simp add: setitem_def initial_world_def)
  have d: "delitem ?db ''a'' ?w1 = (Returns (), ?db, ?w2)"
    by (simp add: delitem_def initial_world_def)
  from set_delete_do_not_persist [of ?db "''a''" "JNum 1" initial_world "Returns ()" ?db ?w1]
    set_delete_do_not_persist [of ?db "''a''" "JNum 1" ?w1 "Returns ()" ?db ?w2] s d
  show ?thesis by simp
qed

text \<open>
  C10. On an instance whose lock is free and whose backing file can be written,
  \<open>Overwrite(D)\<close> returns, the document of the instance is then \<open>D\<close> (the instance refers
  to the very object it was given) and the backing file holds the serialisation of \<open>D\<close>;
  when \<open>D\<close> is the empty dictionary, \<open>Length()\<close> is 0 and the text of the backing file
  parses to the empty dictionary.
\<close>

theorem overwrite_replaces_and_flushes:
  assumes "\<not> lock self" and "can_write (files w (location self))"
  shows "\<exists>self' w'. overwrite self new w = (Returns (), self', w')
           \<and> store self' = new
           \<and> document self' w' = objects w new
           \<and> contents (files w' (location self)) = Some (dumps (objects w new))
           \<and> (objects w new = JObj [] \<longrightarrow>
                 len self' w' = (Returns 0, self', w')
                 \<and> (\<exists>text. contents (files w' (location self)) = Some text
                       \<and> loads text = Some (JObj [])))"
proof -
  let ?self = "self\<lparr>store := new\<rparr>"
  let ?text = "dumps (objects w new)"
  from open_w_can_write [OF assms(2)] obtain n
    where n: "open_w (files w (location self)) ?text = Some n" "contents n = Some ?text"
    by blast
  let ?self' = "?self\<lparr>history := history ?self @ [Acquire, Write ?text, Release]\<rparr>"
  let ?w' = "w\<lparr>files := (files w)(location self := n)\<rparr>"
  have d: "overwrite self new w = (Returns (), ?self', ?w')"
    using dump_free [of ?self w n] assms(1) n(1)
    by (simp add: overwrite_def document_def)
  have e: "loads (dumps (JObj [])) = Some (JObj [])"
    by code_simp
  have "store ?self' = new" "document ?self' ?w' = objects w new"
    "contents (files ?w' (location self)) = Some ?text"
    using n(2) by (simp_all add: document_def)
  moreover have "objects w new = JObj [] \<longrightarrow>
      len ?self' ?w' = (Returns 0, ?self', ?w')
      \<and> (\<exists>text. contents (files ?w' (location self)) = Some text \<and> loads text = Some (JObj []))"
    using n(2) e by (auto simp: len_def)
  ultimately show ?thesis using d by blast
qed

theorem overwrite_replaces_and_flushes_witness:
  "overwrite \<lparr>location = ''db.json'', store = 0, lock = False, history = []\<rparr> 1
     (initial_world\<lparr>objects := (\<lambda>a. if a = 0 then JObj [(''list'', JArr [JNum 42])] else JObj [])\<rparr>)
   = (Returns (),
      \<lparr>location = ''db.json'', store = 1, lock = False,
        history = [Acquire, Write ''{}'', Release]\<rparr>,
      initial_world\<lparr>objects := (\<lambda>a. if a = 0 then JObj [(''list'', JArr [JNum 42])] else JObj []),
        files := (files initial_world)(''db.json'' := Regular ''{}'' True True)\<rparr>)
   \<and> len \<lparr>location = ''db.json'', store = 1, lock = False,
           history = [Acquire, Write ''{}'', Release]\<rparr>
        (initial_world\<lparr>objects := (\<lambda>a. if a = 0 then JObj [(''list'', JArr [JNum 42])] else JObj []),
           files := (files initial_world)(''db.json'' := Regular ''{}'' True True)\<rparr>)
      = (Returns 0,
         \<lparr>location = ''db.json'', store = 1, lock = False,
           history = [Acquire, Write ''{}'', Release]\<rparr>,
         initial_world\<lparr>objects := (\<lambda>a. if a = 0 then JObj [(''list'', JArr [JNum 42])] else JObj []),
           files := (files initial_world)(''db.json'' := Regular ''{}'' True True)\<rparr>)
   \<and> loads ''{}'' = Some (JObj [])"
proof -
  let ?db = "\<lparr>location = ''db.json'', store = 0, lock = False, history = []\<rparr>"
  let ?w = "initial_world\<lparr>objects :=
              (\<lambda>a. if a = 0 then JObj [(''list'', JArr [JNum 42])] else JObj [])\<rparr>"
  have free: "\<not> lock ?db" by simp
  have wr: "can_write (files ?w (location ?db))" by (simp add: initial_world_def)
  have ov: "overwrite ?db 1 ?w =
      (Returns (),
       \<lparr>location = ''db.json'', store = 1, lock = False,
         history = [Acquire, Write ''{}'', Release]\<rparr>,
       ?w\<lparr>files := (files initial_world)(''db.json'' := Regular ''{}'' True True)\<rparr>)"
    by (simp add: overwrite_def dump_def acquire_def release_def initial_world_def Let_def)
  from overwrite_replaces_and_flushes [OF free wr, of 1] ov
  show ?thesis by (auto simp: initial_world_def)
qed

text \<open>
  C5. For every path \<open>p\<close>, default \<open>d\<close> (a reference, or none given) and flag \<open>b\<close>: when \<open>b\<close>
  is true or nothing exists at \<open>p\<close>, and \<open>p\<close> can be written, construction returns an
  instance on \<open>p\<close> whose document is the object \<open>d\<close> refers to, and \<open>p\<close> then holds its
  serialisation; when \<open>b\<close> is false and a readable file with a JSON text exists at \<open>p\<close>,
  construction returns an instance whose document is the parsed value, and no file changes.
\<close>

theorem init_adopts_default_or_loads:
  "((ovw \<or> \<not> path_exists (files w p)) \<and> can_write (files w p) \<longrightarrow>
      (\<exists>self w'. init p dflt ovw w = (Returns (), self, w')
         \<and> location self = p
         \<and> store self = (case dflt of None \<Rightarrow> default_object | Some a \<Rightarrow> a)
         \<and> document self w' = objects w (store self)
         \<and> contents (files w' p) = Some (dumps (document self w'))))
   \<and> (\<not> ovw \<and> path_exists (files w p) \<and> open_r (files w p) = Some text \<and> loads text = Some v \<longrightarrow>
      (\<exists>self w'. init p dflt ovw w = (Returns (), self, w')
         \<and> location self = p
         \<and> document self w' = v
         \<and> files w' = files w))"
proof (intro conjI impI)
  let ?self = "\<lparr>location = p,
                 store = (case dflt of None \<Rightarrow> default_object | Some a \<Rightarrow> a),
                 lock = False, history = []\<rparr>"
  assume a: "(ovw \<or> \<not> path_exists (files w p)) \<and> can_write (files w p)"
  then have i: "init p dflt ovw w = dump ?self w"
    by (auto simp: init_def)
  let ?text = "dumps (document ?self w)"
  from a open_w_can_write [of "files w p" ?text] obtain n
    where n: "open_w (files w (location ?self)) ?text = Some n" "contents n = Some ?text"
    by auto
  have "\<not> lock ?self" by simp
  from dump_free [OF this n(1)] i n(2)
  show "\<exists>self w'. init p dflt ovw w = (Returns (), self, w')
         \<and> location self = p
         \<and> store self = (case dflt of None \<Rightarrow> default_object | Some a \<Rightarrow> a)
         \<and> document self w' = objects w (store self)
         \<and> contents (files w' p) = Some (dumps (document self w'))"
    by (simp add: document_def)
next
  assume a: "\<not> ovw \<and> path_exists (files w p) \<and> open_r (files w p) = Some text \<and> loads text = Some v"
  then show "\<exists>self w'. init p dflt ovw w = (Returns (), self, w')
         \<and> location self = p \<and> document self w' = v \<and> files w' = files w"
    by (simp add: init_def load_def acquire_def release_def new_object_def document_def)
qed

theorem init_adopts_default_or_loads_witness:
  "init ''db.json'' (Some 1) True
     (initial_world\<lparr>objects := (\<lambda>a. if a = 1 then JObj [(''list'', JArr [])] else JObj []),
                     files := (\<lambda>_. Regular ''[1, 2]'' True True)\<rparr>)
   = (Returns (),
      \<lparr>location = ''db.json'', store = 1, lock = False,
        history = [Acquire, Write (dumps (JObj [(''list'', JArr [])])), Release]\<rparr>,
      initial_world\<lparr>objects := (\<lambda>a. if a = 1 then JObj [(''list'', JArr [])] else JObj []),
        files := (\<lambda>_. Regular ''[1, 2]'' True True)
                 (''db.json'' := Regular (dumps (JObj [(''list'', JArr [])])) True True)\<rparr>)
   \<and> init ''db.json'' (Some 1) False
     (initial_world\<lparr>objects := (\<lambda>a. if a = 1 then JObj [(''list'', JArr [])] else JObj []),
                     files := (\<lambda>_. Regular ''[1, 2]'' True True)\<rparr>)
   = (Returns (),
      \<lparr>location = ''db.json'', store = 1, lock = False, history = [Acquire, Release]\<rparr>,
      initial_world\<lparr>objects := (\<lambda>a. if a = 1 then JArr [JNum 1, JNum 2] else JObj []),
        fresh := 2,
        files := (\<lambda>_. Regular ''[1, 2]'' True True)\<rparr>)"
proof -
  let ?w = "initial_world\<lparr>objects := (\<lambda>a. if a = 1 then JObj [(''list'', JArr [])] else JObj []),
                     files := (\<lambda>_. Regular ''[1, 2]'' True True)\<rparr>"
  have l: "loads ''[1, 2]'' = Some (JArr [JNum 1, JNum 2])"
    by code_simp
  have r: "open_r (files ?w ''db.json'') = Some ''[1, 2]''"
    by simp
  have c: "can_write (files ?w ''db.json'')"
    by simp
  have o: "(\<lambda>a. if a = 1 then JObj [(''list'', JArr [])] else JObj [])(Suc 0 := JArr [JNum 1, JNum 2])
           = (\<lambda>a. if a = 1 then JArr [JNum 1, JNum 2] else JObj [])"
    by auto
  have one: "init ''db.json'' (Some 1) True ?w =
      (Returns (),
       \<lparr>location = ''db.json'', store = 1, lock = False,
         history = [Acquire, Write (dumps (JObj [(''list'', JArr [])])), Release]\<rparr>,
       ?w\<lparr>files := (\<lambda>_. Regular ''[1, 2]'' True True)
                 (''db.json'' := Regular (dumps (JObj [(''list'', JArr [])])) True True)\<rparr>)"
    using init_adopts_default_or_loads [of True ?w "''db.json''" "Some 1" "''[1, 2]''" "JArr [JNum 1, JNum 2]"] c
    by (simp add: init_def dump_def acquire_def release_def Let_def)
  have two: "init ''db.json'' (Some 1) False ?w =
      (Returns (),
       \<lparr>location = ''db.json'', store = 1, lock = False, history = [Acquire, Release]\<rparr>,
       ?w\<lparr>objects := (\<lambda>a. if a = 1 then JArr [JNum 1, JNum 2] else JObj []), fresh := 2\<rparr>)"
    using init_adopts_default_or_loads [of False ?w "''db.json''" "Some 1" "''[1, 2]''" "JArr [JNum 1, JNum 2]"] l r o
    by (simp add: init_def load_def acquire_def release_def new_object_def initial_world_def)
  from one two show ?thesis by simp
qed



subsection \<open>Leaving a \<^verbatim>\<open>with\<close> block\<close>

text \<open>
  \<open>exit\<close> on a held lock, with a backing file that can be written: the events it adds to
  the history, in order, and the state it leaves.
\<close>

lemma exit_held:
  assumes "lock self" and "open_w (files w (location self)) (dumps (document self w)) = Some n"
  shows "exit exc self w =
           (Returns (),
            self\<lparr>lock := False,
                 history := history self @
                   [Release, Acquire, Write (dumps (document self w)), Release]\<rparr>,
            w\<lparr>files := (files w)(location self := n)\<rparr>)"
proof -
  have "\<not> lock (release self)"
    by (simp add: release_def)
  moreover have "open_w (files w (location (release self)))
                   (dumps (document (release self) w)) = Some n"
    using assms(2) by (simp add: release_def document_def)
  ultimately have "dump (release self) w =
      (Returns (),
       (release self)\<lparr>history := history (release self) @
           [Acquire, Write (dumps (document (release self) w)), Release]\<rparr>,
       w\<lparr>files := (files w)(location (release self) := n)\<rparr>)"
    by (rule dump_free)
  with assms(1) show ?thesis
    by (simp add: exit_def release_def document_def)
qed

text \<open>
  C2. A block that is entered on a free lock and raises \<open>e\<close>, on an instance whose backing
  file can be written: the \<^verbatim>\<open>with\<close> statement raises \<open>e\<close>, the lock is free afterwards, and
  the backing file holds the serialisation of the document as the block left it.
  \<open>exit\<close> does the same whatever exception it is told about, or none.
\<close>

theorem exit_flushes_after_error:
  assumes "\<not> lock self" and "can_write (files w (location self))"
    and "exec_body body (acquire self) w = (Raises e, self2, w2)"
  shows "\<exists>self3 w3. with_block body self w = (Raises e, self3, w3)
           \<and> \<not> lock self3
           \<and> document self3 w3 = document self2 w2
           \<and> contents (files w3 (location self)) = Some (dumps (document self2 w2))
           \<and> exit (Some e) self2 w2 = exit None self2 w2"
proof -
  from exec_body_frame [OF assms(3)]
  have same: "self2 = acquire self" "files w2 = files w"
    by simp_all
  have held: "lock self2" and loc: "location self2 = location self"
    using same(1) by (simp_all add: acquire_def)
  let ?text = "dumps (document self2 w2)"
  from open_w_can_write [OF assms(2), of ?text] same(2) loc obtain n
    where n: "open_w (files w2 (location self2)) ?text = Some n" "contents n = Some ?text"
    by auto
  let ?self3 = "self2\<lparr>lock := False,
                      history := history self2 @ [Release, Acquire, Write ?text, Release]\<rparr>"
  let ?w3 = "w2\<lparr>files := (files w2)(location self2 := n)\<rparr>"
  have x: "exit (Some e) self2 w2 = (Returns (), ?self3, ?w3)"
    by (rule exit_held [OF held n(1)])
  have "with_block body self w = (Raises e, ?self3, ?w3)"
    using assms(1) assms(3) x by (simp add: with_block_def enter_def)
  moreover have "\<not> lock ?self3" "document ?self3 ?w3 = document self2 w2"
    "contents (files ?w3 (location self)) = Some ?text"
    using n(2) loc by (simp_all add: document_def)
  moreover have "exit (Some e) self2 w2 = exit None self2 w2"
    by (simp add: exit_def)
  ultimately show ?thesis by blast
qed

theorem exit_flushes_after_error_witness:
  "with_block [Set ''a'' (JNum 1), Get ''zz'', Set ''b'' JNull]
     \<lparr>location = ''db.json'', store = 0, lock = False, history = []\<rparr> initial_world
   = (Raises (KeyError ''zz''),
      \<lparr>location = ''db.json'', store = 0, lock = False,
        history = [Acquire, Release, Acquire, Write (dumps (JObj [(''a'', JNum 1)])), Release]\<rparr>,
      initial_world\<lparr>objects := (objects initial_world)(0 := JObj [(''a'', JNum 1)]),
        files := (files initial_world)
                 (''db.json'' := Regular (dumps (JObj [(''a'', JNum 1)])) True True)\<rparr>)"
proof -
  let ?db = "\<lparr>location = ''db.json'', store = 0, lock = False, history = []\<rparr>"
  let ?w2 = "initial_world\<lparr>objects := (objects initial_world)(0 := JObj [(''a'', JNum 1)])\<rparr>"
  have free: "\<not> lock ?db" by simp
  have wr: "can_write (files initial_world (location ?db))"
    by (simp add: initial_world_def)
  have body: "exec_body [Set ''a'' (JNum 1), Get ''zz'', Set ''b'' JNull] (acquire ?db) initial_world
              = (Raises (KeyError ''zz''), acquire ?db, ?w2)"
    by (simp add: setitem_def getitem_def acquire_def initial_world_def)
  have direct: "with_block [Set ''a'' (JNum 1), Get ''zz'', Set ''b'' JNull] ?db initial_world
      = (Raises (KeyError ''zz''),
         \<lparr>location = ''db.json'', store = 0, lock = False,
           history = [Acquire, Release, Acquire, Write (dumps (JObj [(''a'', JNum 1)])), Release]\<rparr>,
         ?w2\<lparr>files := (files initial_world)
                 (''db.json'' := Regular (dumps (JObj [(''a'', JNum 1)])) True True)\<rparr>)"
    by (simp add: with_block_def enter_def exit_def dump_def setitem_def getitem_def
          acquire_def release_def initial_world_def Let_def)
  from exit_flushes_after_error [OF free wr body] direct
  show ?thesis by simp
qed

text \<open>
  C1, as it is stated: among the events that \<open>exit\<close> adds to the history of an instance
  whose lock is held, the write to the backing file comes before the first release of the
  lock. It does not: the release comes first.
\<close>

theorem exit_writes_before_release_counterexample:
  "\<not> write_before_release
       (drop (length (history \<lparr>location = ''db.json'', store = 0, lock = True, history = [Acquire]\<rparr>))
          (history (fst (snd (exit None
             \<lparr>location = ''db.json'', store = 0, lock = True, history = [Acquire]\<rparr>
             initial_world)))))"
  by (simp add: exit_def dump_def acquire_def release_def initial_world_def Let_def)

text \<open>
  C1, amended. On normal exit from a block (the lock is held, the backing file can be
  written) \<open>exit\<close> first releases the lock and then flushes by \<open>dump\<close>, which takes the lock
  again, writes the serialisation of the current document to the backing file and
  releases the lock: the write happens under the lock, and the lock is free at the end,
  but the lock is not held from the block to the write.
\<close>

theorem exit_releases_then_flushes:
  assumes "lock self" and "can_write (files w (location self))"
  shows "\<exists>self' w'. exit None self w = (Returns (), self', w')
           \<and> history self' = history self @
               [Release, Acquire, Write (dumps (document self w)), Release]
           \<and> \<not> lock self'
           \<and> document self' w' = document self w
           \<and> contents (files w' (location self)) = Some (dumps (document self w))"
proof -
  let ?text = "dumps (document self w)"
  from open_w_can_write [OF assms(2), of ?text] obtain n
    where n: "open_w (files w (location self)) ?text = Some n" "contents n = Some ?text"
    by blast
  from exit_held [OF assms(1) n(1), of None] n(2) show ?thesis
    by (simp add: document_def)
qed

theorem exit_releases_then_flushes_witness:
  "exit None \<lparr>location = ''db.json'', store = 0, lock = True, history = [Acquire]\<rparr> initial_world
   = (Returns (),
      \<lparr>location = ''db.json'', store = 0, lock = False,
        history = [Acquire, Release, Acquire, Write ''{}'', Release]\<rparr>,
      initial_world\<lparr>files := (files initial_world)(''db.json'' := Regular ''{}'' True True)\<rparr>)"
proof -
  let ?db = "\<lparr>location = ''db.json'', store = 0, lock = True, history = [Acquire]\<rparr>"
  have held: "lock ?db" by simp
  have wr: "can_write (files initial_world (location ?db))"
    by (simp add: initial_world_def)
  have direct: "exit None ?db initial_world
      = (Returns (),
         \<lparr>location = ''db.json'', store = 0, lock = False,
           history = [Acquire, Release, Acquire, Write ''{}'', Release]\<rparr>,
         initial_world\<lparr>files := (files initial_world)(''db.json'' := Regular ''{}'' True True)\<rparr>)"
    by (simp add: exit_def dump_def acquire_def release_def initial_world_def Let_def)
  from exit_releases_then_flushes [OF held wr] direct
  show ?thesis by simp
qed

subsection \<open>The default document\<close>

text \<open>
  C3. Two instances constructed without a default (with force-reset true) refer to the
  same object: a key set through the first is read through the second, constructed
  later, whatever the paths. So two constructions with the same explicit arguments give
  different documents as soon as the assignment changed the document.
\<close>

theorem default_document_is_shared:
  assumes "init p1 None True w0 = (Returns (), db1, w1)"
    and "setitem db1 k v w1 = (Returns (), db1', w2)"
    and "init p2 None True w2 = (Returns (), db2, w3)"
  shows "store db2 = store db1
         \<and> getitem db2 k w3 = (Returns v, db2, w3)
         \<and> (getitem db1 k w1 \<noteq> (Returns v, db1, w1) \<longrightarrow> document db2 w3 \<noteq> document db1 w1)"
proof -
  let ?new = "\<lambda>p. \<lparr>location = p, store = default_object, lock = False, history = []\<rparr>"
  have i1: "dump (?new p1) w0 = (Returns (), db1, w1)"
    using assms(1) by (simp add: init_def)
  have i2: "dump (?new p2) w2 = (Returns (), db2, w3)"
    using assms(3) by (simp add: init_def)
  from dump_frame [OF i1] have s1: "store db1 = default_object" "objects w1 = objects w0"
    by simp_all
  from dump_frame [OF i2] have s2: "store db2 = default_object" "objects w3 = objects w2"
    by simp_all
  from assms(2) obtain d where d: "objects w1 default_object = JObj d"
    and w2: "objects w2 = (objects w1)(default_object := JObj (AList.update k v d))"
    using s1(1) by (auto simp: setitem_def split: json.splits)
  have g: "getitem db2 k w3 = (Returns v, db2, w3)"
    using s2 w2 by (simp add: getitem_def AList.update_conv')
  have "document db2 w3 \<noteq> document db1 w1" if "getitem db1 k w1 \<noteq> (Returns v, db1, w1)"
  proof
    assume "document db2 w3 = document db1 w1"
    then have "AList.update k v d = d"
      using s1(1) s2 w2 d by (simp add: document_def)
    then have "map_of d k = Some v"
      by (metis AList.update_conv' fun_upd_same)
    with that d s1(1) show False
      by (simp add: getitem_def)
  qed
  with g s1(1) s2(1) show ?thesis by simp
qed

theorem default_document_is_shared_witness:
  "init ''a.json'' None True initial_world
   = (Returns (),
      \<lparr>location = ''a.json'', store = 0, lock = False,
        history = [Acquire, Write ''{}'', Release]\<rparr>,
      initial_world\<lparr>files := (files initial_world)(''a.json'' := Regular ''{}'' True True)\<rparr>)
   \<and> getitem
       \<lparr>location = ''a.json'', store = 0, lock = False,
         history = [Acquire, Write (dumps (JObj [(''k'', JNum 7)])), Release]\<rparr>
       ''k''
       (initial_world\<lparr>objects := (objects initial_world)(0 := JObj [(''k'', JNum 7)]),
          files := (files initial_world)
            (''a.json'' := Regular (dumps (JObj [(''k'', JNum 7)])) True True)\<rparr>)
     = (Returns (JNum 7),
        \<lparr>location = ''a.json'', store = 0, lock = False,
          history = [Acquire, Write (dumps (JObj [(''k'', JNum 7)])), Release]\<rparr>,
        initial_world\<lparr>objects := (objects initial_world)(0 := JObj [(''k'', JNum 7)]),
          files := (files initial_world)
            (''a.json'' := Regular (dumps (JObj [(''k'', JNum 7)])) True True)\<rparr>)
   \<and> document
       \<lparr>location = ''a.json'', store = 0, lock = False,
         history = [Acquire, Write (dumps (JObj [(''k'', JNum 7)])), Release]\<rparr>
       (initial_world\<lparr>objects := (objects initial_world)(0 := JObj [(''k'', JNum 7)]),
          files := (files initial_world)
            (''a.json'' := Regular (dumps (JObj [(''k'', JNum 7)])) True True)\<rparr>)
     \<noteq> document
       \<lparr>location = ''a.json'', store = 0, lock = False,
         history = [Acquire, Write ''{}'', Release]\<rparr>
       (initial_world\<lparr>files := (files initial_world)(''a.json'' := Regular ''{}'' True True)\<rparr>)"
proof -
  let ?db1 = "\<lparr>location = ''a.json'', store = 0, lock = False,
                history = [Acquire, Write ''{}'', Release]\<rparr>"
  let ?w1 = "initial_world\<lparr>files := (files initial_world)(''a.json'' := Regular ''{}'' True True)\<rparr>"
  let ?w2 = "?w1\<lparr>objects := (objects ?w1)(0 := JObj [(''k'', JNum 7)])\<rparr>"
  let ?db2 = "\<lparr>location = ''a.json'', store = 0, lock = False,
                history = [Acquire, Write (dumps (JObj [(''k'', JNum 7)])), Release]\<rparr>"
  let ?w3 = "initial_world\<lparr>objects := (objects initial_world)(0 := JObj [(''k'', JNum 7)]),
          files := (files initial_world)
            (''a.json'' := Regular (dumps (JObj [(''k'', JNum 7)])) True True)\<rparr>"
  have one: "init ''a.json'' None True initial_world = (Returns (), ?db1, ?w1)"
    by (simp add: init_def dump_def acquire_def release_def initial_world_def
          default_object_def Let_def)
  have two: "setitem ?db1 ''k'' (JNum 7) ?w1 = (Returns (), ?db1, ?w2)"
    by (simp add: setitem_def initial_world_def)
  have three: "init ''a.json'' None True ?w2 = (Returns (), ?db2, ?w3)"
    by (simp add: init_def dump_def acquire_def release_def initial_world_def
          default_object_def Let_def)
  have before: "getitem ?db1 ''k'' ?w1 \<noteq> (Returns (JNum 7), ?db1, ?w1)"
    by (simp add: getitem_def initial_world_def)
  from default_document_is_shared [OF one two three] one before
  show ?thesis by simp
qed

subsection \<open>The decoder reads back what the encoder writes\<close>










































end
